theory Spec2Isabelle
  imports Complex_Main
begin


section \<open>JavaScript strings and numbers\<close>

text \<open>
  A JavaScript string is modelled as a \<^typ>\<open>string\<close>: the list of the bytes of its UTF-8
  encoding. Concatenation, equality and substring search agree with JavaScript on
  well-formed text. Numbers are exact: an integer is an \<^typ>\<open>int\<close>, a fraction a
  \<^typ>\<open>rat\<close>.
\<close>

text \<open>
  \<open>String.prototype.toLowerCase\<close>, on the ASCII letters; other bytes are kept.
  JavaScript also lower-cases the letters outside ASCII (U+212A becomes \<open>k\<close>, for
  one), so the model is that of the code on ASCII text.
\<close>

definition lowerChar :: "char \<Rightarrow> char" where
  "lowerChar c =
     (case map_of (zip ''ABCDEFGHIJKLMNOPQRSTUVWXYZ'' ''abcdefghijklmnopqrstuvwxyz'') c of
        Some l \<Rightarrow> l
      | None \<Rightarrow> c)"

definition toLowerCase :: "string \<Rightarrow> string" where
  "toLowerCase s = map lowerChar s"

fun startsWith :: "string \<Rightarrow> string \<Rightarrow> bool" where
  "startsWith s [] = True"
| "startsWith [] (p # ps) = False"
| "startsWith (c # cs) (p # ps) = (c = p \<and> startsWith cs ps)"

text \<open>\<open>String.prototype.includes\<close>: \<open>includesStr s w\<close> is \<open>s.includes(w)\<close>.\<close>

fun includesStr :: "string \<Rightarrow> string \<Rightarrow> bool" where
  "includesStr [] w = (w = [])"
| "includesStr (c # cs) w = (startsWith (c # cs) w \<or> includesStr cs w)"

text \<open>\<open>Array.prototype.some\<close>.\<close>

definition some :: "'a list \<Rightarrow> ('a \<Rightarrow> bool) \<Rightarrow> bool" where
  "some xs p = list_ex p xs"

text \<open>Decimal rendering of a number in a template literal.\<close>

fun showNat :: "nat \<Rightarrow> string" where
  "showNat n =
     (if n < 10 then [''0123456789'' ! n]
      else showNat (n div 10) @ [''0123456789'' ! (n mod 10)])"

declare showNat.simps [simp del]

definition showInt :: "int \<Rightarrow> string" where
  "showInt i = (if i < 0 then ''-'' @ showNat (nat (- i)) else showNat (nat i))"

section \<open>agent-chat.js: the keyword tools\<close>

subsection \<open>Object literals\<close>

text \<open>
  An object literal is the list of its \<open>key: value\<close> entries as written. A key written
  twice keeps the position of its first entry and the value of its last one.
\<close>

text \<open>\<open>Object.keys\<close>, and the value stored under a key.\<close>

definition objectKeys :: "(string \<times> 'v) list \<Rightarrow> string list" where
  "objectKeys obj = rev (remdups (rev (map fst obj)))"

definition getProp :: "(string \<times> 'v) list \<Rightarrow> string \<Rightarrow> 'v option" where
  "getProp obj k = map_of (rev obj) k"

subsection \<open>analyzeSentiment\<close>

record sentiment_result =
  sentiment :: string
  intensity :: int
  confidence :: rat
  should_celebrate :: bool
  should_comfort :: bool

definition positive :: "string list" where
  "positive = [''happy'', ''great'', ''mast'', ''good'', ''awesome'', ''excited'',
     ''love'', ''like'', ''enjoy'', ''badiya'', ''badhiya'', ''sahi'', ''acha'', ''maza'', ''fun'']"

definition negative :: "string list" where
  "negative = [''sad'', ''bad'', ''thak'', ''tired'', ''hate'', ''angry'', ''upset'',
     ''worried'', ''stressed'', ''tension'', ''problem'', ''issue'', ''nahi'', ''galat'']"

definition emphasis :: "string list" where
  "emphasis = [''bohot'', ''bahut'', ''kitna'', ''very'', ''so'', ''too'']"

definition analyzeSentiment :: "string \<Rightarrow> sentiment_result" where
  "analyzeSentiment input =
     (let text = toLowerCase input;
          hasPositive = some positive (\<lambda>w. includesStr text w);
          hasNegative = some negative (\<lambda>w. includesStr text w);
          hasEmphasis = some emphasis (\<lambda>w. includesStr text w);
          (sentiment, intensity) =
            (if hasPositive \<and> \<not> hasNegative then (''positive'', if hasEmphasis then 8 else 6)
             else if hasNegative \<and> \<not> hasPositive then (''negative'', if hasEmphasis then 7 else 5)
             else (''neutral'', 5))
      in \<lparr> sentiment = sentiment,
           intensity = intensity,
           confidence = 75 / 100,
           should_celebrate = (sentiment = ''positive'' \<and> intensity > 6),
           should_comfort = (sentiment = ''negative'' \<and> intensity > 4) \<rparr>)"

subsection \<open>analyzeHinglish\<close>

text \<open>
  \<open>text.replace(new RegExp(`\\b${word}\\b`, "gi"), value)\<close> for a word made of letters,
  as every key of the dictionary is: each occurrence of the word, in either case, that
  is not preceded and not followed by a word character (a letter, a digit or \<open>_\<close>) is
  replaced, scanning from the left; the scan resumes after a replaced occurrence.
\<close>

definition isWordChar :: "char \<Rightarrow> bool" where
  "isWordChar c \<longleftrightarrow>
     c \<in> set (''abcdefghijklmnopqrstuvwxyz'' @ ''ABCDEFGHIJKLMNOPQRSTUVWXYZ'' @ ''0123456789_'')"

text \<open>\<open>\b\<close> between two neighbouring positions; \<open>None\<close> is an end of the text.\<close>

definition wordBoundary :: "char option \<Rightarrow> char option \<Rightarrow> bool" where
  "wordBoundary l r =
     ((case l of None \<Rightarrow> False | Some c \<Rightarrow> isWordChar c)
        \<noteq> (case r of None \<Rightarrow> False | Some c \<Rightarrow> isWordChar c))"

fun startsWithIgnoreCase :: "string \<Rightarrow> string \<Rightarrow> bool" where
  "startsWithIgnoreCase s [] = True"
| "startsWithIgnoreCase [] (p # ps) = False"
| "startsWithIgnoreCase (c # cs) (p # ps) = (lowerChar c = lowerChar p \<and> startsWithIgnoreCase cs ps)"

definition charAt :: "string \<Rightarrow> nat \<Rightarrow> char option" where
  "charAt s i = (if i < length s then Some (s ! i) else None)"

definition matchesWord :: "string \<Rightarrow> char option \<Rightarrow> string \<Rightarrow> bool" where
  "matchesWord word prev s =
     (word \<noteq> [] \<and> wordBoundary prev (charAt s 0) \<and> startsWithIgnoreCase s word
      \<and> wordBoundary (charAt s (length word - 1)) (charAt s (length word)))"

text \<open>
  \<open>replaceFrom word value skip prev s\<close>: \<open>s\<close> is the text still to scan, \<open>prev\<close> the
  character before it, \<open>skip\<close> the number of characters of a replaced occurrence still
  to pass over.
\<close>

fun replaceFrom :: "string \<Rightarrow> string \<Rightarrow> nat \<Rightarrow> char option \<Rightarrow> string \<Rightarrow> string" where
  "replaceFrom word value skip prev [] = []"
| "replaceFrom word value (Suc k) prev (c # cs) = replaceFrom word value k (Some c) cs"
| "replaceFrom word value 0 prev (c # cs) =
     (if matchesWord word prev (c # cs)
      then value @ replaceFrom word value (length word - 1) (Some c) cs
      else c # replaceFrom word value 0 (Some c) cs)"

definition replaceWord :: "string \<Rightarrow> string \<Rightarrow> string \<Rightarrow> string" where
  "replaceWord word value text = replaceFrom word value 0 None text"

definition dictionary :: "(string \<times> string) list" where
  "dictionary =
    [(''kya'', ''what''), (''baat'', ''thing/matter''), (''hai'', ''is''),
     (''yaar'', ''friend/buddy''), (''mast'', ''awesome''), (''thak'', ''tired''),
     (''gaya'', ''gone/became''), (''kar'', ''do''), (''raha'', ''doing''),
     (''acha'', ''good''), (''bohot'', ''very''), (''nahi'', ''no/not''),
     (''kuch'', ''something''), (''samajh'', ''understand''), (''aa'', ''come''),
     (''rhi'', ''doing (fem)''), (''rha'', ''doing (masc)''), (''hai'', ''is''),
     (''ka'', ''what/of''), (''kahan'', ''where''), (''kab'', ''when''),
     (''kaise'', ''how''), (''kyun'', ''why''), (''kitna'', ''how much''),
     (''badiya'', ''great''), (''badhiya'', ''great''), (''lage'', ''seem/feel''),
     (''sahi'', ''correct/good''), (''galat'', ''wrong''), (''han'', ''yes''),
     (''hmm'', ''uh huh''), (''haha'', ''laughter''), (''lol'', ''lol''),
     (''arre'', ''oh hey''), (''chal'', ''let's go/move''), (''chalo'', ''come on''),
     (''sun'', ''listen''), (''bol'', ''speak/say''), (''bolo'', ''please say''),
     (''acha'', ''okay''), (''theek'', ''okay/fine''), (''bas'', ''enough/stop''),
     (''nahi'', ''no''), (''hmm'', ''mhm''), (''arey'', ''oh hey''),
     (''yaar'', ''friend''), (''dost'', ''friend''), (''bhai'', ''brother/friend'')]"

record hinglish_result =
  is_hinglish :: bool
  detected_words :: "string list"
  translation :: string
  confidence :: rat

definition analyzeHinglish :: "string \<Rightarrow> hinglish_result" where
  "analyzeHinglish input =
     (let lowerInput = toLowerCase input;
          hinglishWords = filter (\<lambda>word. includesStr lowerInput word) (objectKeys dictionary);
          isHinglish = (length hinglishWords > 0);
          translation =
            fold (\<lambda>word translation.
                    case getProp dictionary word of
                      Some value \<Rightarrow> replaceWord word value translation
                    | None \<Rightarrow> replaceWord word ''undefined'' translation)
                 hinglishWords input
      in \<lparr> is_hinglish = isHinglish,
           detected_words = hinglishWords,
           translation = (if isHinglish then translation else input),
           confidence = min (rat_of_nat (length hinglishWords) * (2 / 10) + 5 / 10) (9 / 10) \<rparr>)"

section \<open>session1-example1.js: HinglishChainPro\<close>

subsection \<open>Errors, chunks and the observable world\<close>

text \<open>
  A thrown JavaScript error: its \<open>name\<close>, its \<open>code\<close> (absent on most errors, set by
  the network layer to \<open>ECONNREFUSED\<close> and the like) and its \<open>message\<close>.
\<close>

record js_error =
  name :: string
  code :: "string option"
  message :: string

text \<open>\<open>new Error(message)\<close> and a \<open>TypeError\<close> raised by the runtime.\<close>

definition Error :: "string \<Rightarrow> js_error" where
  "Error msg = \<lparr> name = ''Error'', code = None, message = msg \<rparr>"

definition TypeError :: "string option \<Rightarrow> string \<Rightarrow> js_error" where
  "TypeError c msg = \<lparr> name = ''TypeError'', code = c, message = msg \<rparr>"

text \<open>
  The chain \<open>prompt.pipe(llm).pipe(parser)\<close> built by \<open>init\<close>: which class's prompt it
  holds and the model name its \<open>ChatOllama\<close> was created with.
\<close>

datatype prompt = TranslatorPrompt | FriendPrompt

datatype chain = Chain prompt string

text \<open>
  A chunk of a stream: a message object with its text \<open>content\<close>, and the text that
  JavaScript's string conversion gives for the object itself (\<open>String(chunk)\<close>).
\<close>

record chunk =
  content :: string
  toString :: string

text \<open>The value of \<open>chunk.content || chunk\<close>: a text, or the chunk object itself.\<close>

datatype token = Text string | Object chunk

text \<open>
  Everything the class does to its environment, oldest event first: console lines,
  writes to standard output, timers awaited, the calls to the model collaborator, and
  the calls to a caller's callback that records them.
\<close>

datatype event =
    ConsoleLog string
  | ConsoleError string
  | StdoutWrite string
  | SetTimeout int
  | ChainInvoke chain string
  | LlmStream string string
  | LlmInvoke string "(string \<times> string) list" string
  | OnToken token

type_synonym world = "event list"

fun isCall :: "event \<Rightarrow> bool" where
  "isCall (ChainInvoke c t) = True"
| "isCall (LlmStream m t) = True"
| "isCall (LlmInvoke m h t) = True"
| "isCall e = False"


text \<open>The number of calls made to the model collaborator so far.\<close>

definition calls :: "world \<Rightarrow> nat" where
  "calls w = length (filter isCall w)"

definition consoleLog :: "string \<Rightarrow> world \<Rightarrow> world" where
  "consoleLog s w = w @ [ConsoleLog s]"

definition consoleError :: "string \<Rightarrow> world \<Rightarrow> world" where
  "consoleError s w = w @ [ConsoleError s]"

text \<open>The non-ASCII symbols of the messages, as UTF-8, and the characters \<open>"\<close> and newline.\<close>

definition arrows :: string where
  "arrows = [CHR 0xF0, CHR 0x9F, CHR 0x94, CHR 0x84]"

definition checkMark :: string where
  "checkMark = [CHR 0xE2, CHR 0x9C, CHR 0x85]"

definition crossMark :: string where
  "crossMark = [CHR 0xE2, CHR 0x9D, CHR 0x8C]"

definition hourglass :: string where
  "hourglass = [CHR 0xE2, CHR 0x8F, CHR 0xB3]"

definition warningSign :: string where
  "warningSign = [CHR 0xE2, CHR 0x9A, CHR 0xA0, CHR 0xEF, CHR 0xB8, CHR 0x8F]"

definition quote :: string where
  "quote = [CHR 0x22]"

definition newline :: string where
  "newline = [CHR 0x0A]"

subsection \<open>The class\<close>

record hinglishChainPro =
  modelName :: string
  chain :: "chain option"
  maxRetries :: int
  retryDelay :: int
  timeout :: int

record options =
  opt_maxRetries :: "int option"
  opt_retryDelay :: "int option"
  opt_timeout :: "int option"

text \<open>\<open>v || d\<close> for an optional number: absent and \<open>0\<close> are falsy.\<close>

definition orDefault :: "int option \<Rightarrow> int \<Rightarrow> int" where
  "orDefault v d = (case v of None \<Rightarrow> d | Some n \<Rightarrow> if n = 0 then d else n)"

text \<open>The constructor; an absent argument takes its default.\<close>

definition HinglishChainPro :: "string option \<Rightarrow> options option \<Rightarrow> hinglishChainPro" where
  "HinglishChainPro model_name opts =
     (let options = (case opts of
                       None \<Rightarrow> \<lparr> opt_maxRetries = None, opt_retryDelay = None, opt_timeout = None \<rparr>
                     | Some given \<Rightarrow> given)
      in \<lparr> modelName = (case model_name of None \<Rightarrow> ''kimi-k2.5:cloud'' | Some m \<Rightarrow> m),
           chain = None,
           maxRetries = orDefault (opt_maxRetries options) 3,
           retryDelay = orDefault (opt_retryDelay options) 1000,
           timeout = orDefault (opt_timeout options) 30000 \<rparr>)"

definition init :: "hinglishChainPro \<Rightarrow> hinglishChainPro" where
  "init this =
     (if chain this \<noteq> None then this
      else this \<lparr> chain := Some (Chain FriendPrompt (modelName this)) \<rparr>)"

text \<open>
  The model collaborator behind \<open>this.chain.invoke\<close>: what the call number \<open>n\<close> (counting
  from 0 over all calls made so far) returns or throws for a chain and an input.
\<close>

type_synonym 'r chainModel = "nat \<Rightarrow> chain \<Rightarrow> string \<Rightarrow> js_error + 'r"

definition invokeChain :: "'r chainModel \<Rightarrow> hinglishChainPro \<Rightarrow> string \<Rightarrow> world \<Rightarrow> (js_error + 'r) \<times> world" where
  "invokeChain model this text w =
     (case chain this of
        None \<Rightarrow> (Inl (TypeError None ''Cannot read properties of null (reading 'invoke')''), w)
      | Some c \<Rightarrow> (model (calls w) c text, w @ [ChainInvoke c text]))"

text \<open>The \<open>catch\<close> block of \<open>translate\<close>: the error it throws for the error caught.\<close>

definition translateCatch :: "js_error \<Rightarrow> js_error" where
  "translateCatch error =
     (if code error = Some ''ECONNREFUSED''
      then Error ''Ollama is not running! Start with: ollama serve''
      else if name error = ''OutputParserException''
      then Error ''Model returned invalid JSON. Try again.''
      else error)"

definition translate ::
  "'r chainModel \<Rightarrow> string \<Rightarrow> hinglishChainPro \<times> world \<Rightarrow> (js_error + 'r) \<times> hinglishChainPro \<times> world" where
  "translate model text = (\<lambda>(this, w).
     let this = init this;
         w = consoleLog (arrows @ '' Translating: '' @ quote @ text @ quote) w;
         (r, w) = invokeChain model this text w
     in case r of
          Inr result \<Rightarrow> (Inr result, this, consoleLog (checkMark @ '' Translation complete!'') w)
        | Inl error \<Rightarrow> (Inl (translateCatch error), this, w))"

subsection \<open>handleError\<close>

definition errorMap :: "(string \<times> string) list" where
  "errorMap =
     [(''ECONNREFUSED'', warningSign @ ''  Cannot connect to Ollama. Is it running?''),
      (''ENOTFOUND'', warningSign @ ''  Ollama server not found. Check your setup.''),
      (''ETIMEDOUT'', warningSign @ ''  Request timed out. Model might be busy.''),
      (''ECONNRESET'', warningSign @ ''  Connection lost. Please try again.'')]"

text \<open>
  \<open>errorMap[error.code] || error.message\<close>; a code is taken to be the name of an error
  code, not of a member that every object inherits.
\<close>

definition handleError :: "js_error \<Rightarrow> world \<Rightarrow> js_error \<times> world" where
  "handleError error w =
     (let msg =
            (case code error of
               None \<Rightarrow> message error
             | Some c \<Rightarrow> (case getProp errorMap c of Some m \<Rightarrow> m | None \<Rightarrow> message error))
      in (Error msg, consoleError (newline @ crossMark @ '' Error: '' @ msg) w))"

subsection \<open>translateStreamRaw\<close>

text \<open>
  The streaming collaborator behind \<open>prompt.pipe(llm).stream\<close>: for the call number, the
  model name and the text, the chunks it delivers and then, possibly, the error it
  throws (with no chunk before it when the call itself fails).
\<close>

type_synonym llmStream = "nat \<Rightarrow> string \<Rightarrow> string \<Rightarrow> chunk list \<times> js_error option"

text \<open>
  The caller's \<open>onToken\<close> callback acts on the world; a callback that throws is not
  modelled. \<open>recordToken\<close> is the callback that records each call made to it.
\<close>

type_synonym sink = "token \<Rightarrow> world \<Rightarrow> world"

definition recordToken :: sink where
  "recordToken t w = w @ [OnToken t]"

definition chunkContent :: "chunk \<Rightarrow> token" where
  "chunkContent chunk = (if content chunk \<noteq> [] then Text (content chunk) else Object chunk)"

text \<open>The text appended by \<open>fullText += content\<close>.\<close>

fun tokenString :: "token \<Rightarrow> string" where
  "tokenString (Text s) = s"
| "tokenString (Object c) = toString c"

text \<open>\<open>process.stdout.write\<close> rejects a value that is not a string or a buffer.\<close>

definition stdoutWriteError :: js_error where
  "stdoutWriteError =
     TypeError (Some ''ERR_INVALID_ARG_TYPE'')
       (''The '' @ quote @ ''chunk'' @ quote
          @ '' argument must be of type string or an instance of Buffer, TypedArray, or DataView.'')"

text \<open>The \<open>for await\<close> loop over the chunks delivered, with \<open>fullText\<close> as accumulator.\<close>

fun consume :: "sink option \<Rightarrow> chunk list \<Rightarrow> string \<Rightarrow> world \<Rightarrow> (js_error + string) \<times> world" where
  "consume onToken [] fullText w = (Inr fullText, w)"
| "consume onToken (chunk # rest) fullText w =
     (let content = chunkContent chunk;
          fullText = fullText @ tokenString content
      in case onToken of
           Some callback \<Rightarrow> consume onToken rest fullText (callback content w)
         | None \<Rightarrow>
             (case content of
                Text s \<Rightarrow> consume onToken rest fullText (w @ [StdoutWrite s])
              | Object c \<Rightarrow> (Inl stdoutWriteError, w)))"

record stream_result =
  translated_text :: string

definition translateStreamRaw ::
  "llmStream \<Rightarrow> string \<Rightarrow> sink option \<Rightarrow> hinglishChainPro \<times> world
     \<Rightarrow> (js_error + stream_result) \<times> hinglishChainPro \<times> world" where
  "translateStreamRaw stream text onToken = (\<lambda>(this, w).
     let this = init this;
         w = consoleLog (arrows @ '' Streaming translation: '' @ quote @ text @ quote @ newline) w;
         (chunks, failure) = stream (calls w) (modelName this) text;
         w = w @ [LlmStream (modelName this) text];
         (r, w) = consume onToken chunks [] w;
         r = (case r of
                Inl error \<Rightarrow> Inl error
              | Inr fullText \<Rightarrow> (case failure of Some error \<Rightarrow> Inl error | None \<Rightarrow> Inr fullText))
     in case r of
          Inr fullText \<Rightarrow>
            (Inr \<lparr> translated_text = fullText \<rparr>, this,
             consoleLog (newline @ checkMark @ '' Stream complete!'') w)
        | Inl error \<Rightarrow> (let (e, w) = handleError error w in (Inl e, this, w)))"

subsection \<open>translateWithRetry\<close>

text \<open>
  The \<open>for\<close> loop, from the value of \<open>attempt\<close> on; \<open>lastError\<close> is \<open>None\<close> while
  undefined. Reading \<open>lastError.message\<close> after a loop that never ran throws a TypeError.
\<close>

function attemptLoop ::
  "'r chainModel \<Rightarrow> string \<Rightarrow> int \<Rightarrow> js_error option \<Rightarrow> hinglishChainPro \<times> world
     \<Rightarrow> (js_error + 'r) \<times> hinglishChainPro \<times> world" where
  "attemptLoop model text attempt lastError (this, w) =
     (if attempt \<le> maxRetries this then
        (case translate model text
                (this, consoleLog (arrows @ '' Attempt '' @ showInt attempt @ ''/''
                                     @ showInt (maxRetries this) @ ''...'') w) of
           (Inr result, this', w') \<Rightarrow> (Inr result, this', w')
         | (Inl error, this', w') \<Rightarrow>
             (let w' = consoleLog (crossMark @ '' Attempt '' @ showInt attempt @ '' failed: ''
                                     @ message error) w'
              in if name error = ''OutputParserException'' then (Inl error, this', w')
                 else attemptLoop model text (attempt + 1) (Some error)
                        (this',
                         if attempt < maxRetries this'
                         then consoleLog (hourglass @ '' Retrying in '' @ showInt (retryDelay this')
                                            @ ''ms...'') w'
                                @ [SetTimeout (retryDelay this')]
                         else w')))
      else
        (case lastError of
           None \<Rightarrow>
             (Inl (TypeError None ''Cannot read properties of undefined (reading 'message')''), this, w)
         | Some e \<Rightarrow>
             (Inl (Error (''Failed after '' @ showInt (maxRetries this) @ '' attempts: '' @ message e)),
              this, w)))"
  by pat_completeness auto
termination
  apply (relation "measure (\<lambda>(model, text, attempt, lastError, this, w). nat (maxRetries this + 1 - attempt))")
   apply simp
  apply (auto simp: translate_def init_def Let_def split: prod.splits sum.splits if_splits)
  done

declare attemptLoop.simps [simp del]

definition translateWithRetry ::
  "'r chainModel \<Rightarrow> string \<Rightarrow> hinglishChainPro \<times> world \<Rightarrow> (js_error + 'r) \<times> hinglishChainPro \<times> world" where
  "translateWithRetry model text = attemptLoop model text 1 None"

subsection \<open>chat\<close>



section \<open>hinglish-chain.js: HinglishChain\<close>

record hinglishChain =
  hc_modelName :: string
  hc_chain :: "chain option"

definition HinglishChain :: "string option \<Rightarrow> hinglishChain" where
  "HinglishChain model_name =
     \<lparr> hc_modelName = (case model_name of None \<Rightarrow> ''kimi-k2.5:cloud'' | Some m \<Rightarrow> m),
       hc_chain = None \<rparr>"

definition HinglishChain_init :: "hinglishChain \<Rightarrow> hinglishChain" where
  "HinglishChain_init this =
     (if hc_chain this \<noteq> None then this
      else this \<lparr> hc_chain := Some (Chain TranslatorPrompt (hc_modelName this)) \<rparr>)"

definition HinglishChain_translate ::
  "'r chainModel \<Rightarrow> string \<Rightarrow> hinglishChain \<times> world \<Rightarrow> (js_error + 'r) \<times> hinglishChain \<times> world" where
  "HinglishChain_translate model text = (\<lambda>(this, w).
     let this = HinglishChain_init this
     in case hc_chain this of
          None \<Rightarrow> (Inl (TypeError None ''Cannot read properties of null (reading 'invoke')''), this, w)
        | Some c \<Rightarrow> (model (calls w) c text, this, w @ [ChainInvoke c text]))"

section \<open>Notions used to state the properties\<close>

text \<open>The chain an instance holds once \<open>init\<close> has run.\<close>

definition builtChain :: "hinglishChainPro \<Rightarrow> chain" where
  "builtChain this = (case chain this of Some c \<Rightarrow> c | None \<Rightarrow> Chain FriendPrompt (modelName this))"

fun isTimer :: "event \<Rightarrow> bool" where
  "isTimer (SetTimeout d) = True"
| "isTimer e = False"

text \<open>The calls to the collaborator and the waits, in the order they happened.\<close>

definition attempts :: "world \<Rightarrow> event list" where
  "attempts w = filter (\<lambda>e. isCall e \<or> isTimer e) w"





text \<open>The tokens handed to the caller's callback, in the order of the calls.\<close>

fun isOnToken :: "event \<Rightarrow> bool" where
  "isOnToken (OnToken t) = True"
| "isOnToken e = False"

definition sinkCalls :: "world \<Rightarrow> event list" where
  "sinkCalls w = filter isOnToken w"

text \<open>A timeout error, a validation error and a refused connection, as the collaborator throws them.\<close>

definition timeoutError :: js_error where
  "timeoutError = \<lparr> name = ''Error'', code = Some ''ETIMEDOUT'', message = ''connect ETIMEDOUT 127.0.0.1:11434'' \<rparr>"

definition parserError :: js_error where
  "parserError = \<lparr> name = ''OutputParserException'', code = None, message = ''Failed to parse.'' \<rparr>"



text \<open>
  Collaborators for the examples: one whose every call throws the same error, one that
  answers with the input, a stream that delivers given chunks, and a stream and a chat
  model that fail at once.
\<close>

definition failingModel :: "js_error \<Rightarrow> 'r chainModel" where
  "failingModel e n c t = Inl e"

definition echoModel :: "string chainModel" where
  "echoModel n c t = Inr t"

definition streamOf :: "chunk list \<Rightarrow> llmStream" where
  "streamOf chunks n m t = (chunks, None)"



section \<open>The response schema and its validation\<close>

text \<open>
  Modelled from the spec: the schema library and the structured output parser, which
  validate a candidate against the schema, are not among the sources. The values, the
  schema descriptor and the validation errors below are those of sections 3 and 4.2 of
  the specification; only the declaration \<open>hinglishResponseSchema\<close> is in the sources.
\<close>

text \<open>A parsed JSON value: the candidate that the parser hands to the schema.\<close>

datatype json =
    JNull
  | JBool bool
  | JNum rat
  | JStr string
  | JArr "json list"
  | JObj "(string \<times> json) list"

text \<open>
  A schema is a list of fields; a field has a name, a kind and a flag for optional
  fields; a number may carry an inclusive range.
\<close>

datatype kind = KString | KNumber "(rat \<times> rat) option" | KBoolean | KArray kind

record field =
  fname :: string
  fkind :: kind
  optional :: bool

type_synonym schema = "field list"

text \<open>
  \<open>hinglishResponseSchema\<close> of hinglish-chain.js and session1-example1.js:
  \<open>z.string()\<close> is a required string, \<open>z.number().min(0).max(1)\<close> a required number
  in the range from 0 to 1, \<open>z.array(z.string()).default([])\<close> an optional array of
  strings and \<open>z.string().optional()\<close> an optional string.
\<close>

definition hinglishResponseSchema :: schema where
  "hinglishResponseSchema =
     [\<lparr> fname = ''translated_text'', fkind = KString, optional = False \<rparr>,
      \<lparr> fname = ''detected_language'', fkind = KString, optional = False \<rparr>,
      \<lparr> fname = ''confidence'', fkind = KNumber (Some (0, 1)), optional = False \<rparr>,
      \<lparr> fname = ''alternative_translations'', fkind = KArray KString, optional = True \<rparr>,
      \<lparr> fname = ''cultural_notes'', fkind = KString, optional = True \<rparr>]"

text \<open>The schema of the specification's scenario: a string and a number in the range from 0 to 1.\<close>

definition scenarioSchema :: schema where
  "scenarioSchema =
     [\<lparr> fname = ''translated_text'', fkind = KString, optional = False \<rparr>,
      \<lparr> fname = ''confidence'', fkind = KNumber (Some (0, 1)), optional = False \<rparr>]"

datatype validation_error =
    MalformedShape
  | MissingField string
  | TypeMismatch string string string
  | RangeViolation string rat "rat \<times> rat"

fun typeName :: "json \<Rightarrow> string" where
  "typeName JNull = ''null''"
| "typeName (JBool b) = ''boolean''"
| "typeName (JNum x) = ''number''"
| "typeName (JStr s) = ''string''"
| "typeName (JArr xs) = ''array''"
| "typeName (JObj kvs) = ''object''"

fun kindName :: "kind \<Rightarrow> string" where
  "kindName KString = ''string''"
| "kindName (KNumber r) = ''number''"
| "kindName KBoolean = ''boolean''"
| "kindName (KArray k) = ''array''"

text \<open>
  Modelled from the spec: the validation itself is done by the schema library and the
  structured output parser, which are not among the sources. \<open>checkValue\<close>,
  \<open>validateFields\<close> and \<open>validate\<close> follow section 4.2 of the specification: a
  candidate that is not a mapping is a \<open>MalformedShape\<close>; the fields are checked in the
  order of the schema and the first failure is the error; a missing required field is a
  \<open>MissingField\<close>, a value of another kind a \<open>TypeMismatch\<close>, a number outside its
  range a \<open>RangeViolation\<close>; a missing optional array becomes the empty array and a
  missing optional scalar stays absent. The value returned holds the fields of the
  schema, in its order.
\<close>

fun checkValue :: "string \<Rightarrow> kind \<Rightarrow> json \<Rightarrow> validation_error option"
  and checkAll :: "string \<Rightarrow> kind \<Rightarrow> json list \<Rightarrow> validation_error option" where
  "checkValue f KString (JStr s) = None"
| "checkValue f (KNumber None) (JNum x) = None"
| "checkValue f (KNumber (Some (lo, hi))) (JNum x) =
     (if lo \<le> x \<and> x \<le> hi then None else Some (RangeViolation f x (lo, hi)))"
| "checkValue f KBoolean (JBool b) = None"
| "checkValue f (KArray k) (JArr xs) = checkAll f k xs"
| "checkValue f k v = Some (TypeMismatch f (kindName k) (typeName v))"
| "checkAll f k [] = None"
| "checkAll f k (x # xs) = (case checkValue f k x of Some e \<Rightarrow> Some e | None \<Rightarrow> checkAll f k xs)"

fun validateFields :: "schema \<Rightarrow> (string \<times> json) list \<Rightarrow> validation_error + (string \<times> json) list" where
  "validateFields [] obj = Inr []"
| "validateFields (f # fs) obj =
     (case getProp obj (fname f) of
        None \<Rightarrow>
          if optional f then
            (case validateFields fs obj of
               Inl e \<Rightarrow> Inl e
             | Inr rest \<Rightarrow>
                 (case fkind f of
                    KArray k \<Rightarrow> Inr ((fname f, JArr []) # rest)
                  | _ \<Rightarrow> Inr rest))
          else Inl (MissingField (fname f))
      | Some v \<Rightarrow>
          (case checkValue (fname f) (fkind f) v of
             Some e \<Rightarrow> Inl e
           | None \<Rightarrow>
               (case validateFields fs obj of
                  Inl e \<Rightarrow> Inl e
                | Inr rest \<Rightarrow> Inr ((fname f, v) # rest))))"

definition validate :: "schema \<Rightarrow> json \<Rightarrow> validation_error + json" where
  "validate s candidate =
     (case candidate of
        JObj obj \<Rightarrow> (case validateFields s obj of Inl e \<Rightarrow> Inl e | Inr checked \<Rightarrow> Inr (JObj checked))
      | _ \<Rightarrow> Inl MalformedShape)"

section \<open>Properties of the keyword tools\<close>

subsection \<open>Strings\<close>

lemma startsWith_iff: "startsWith s w \<longleftrightarrow> (\<exists>q. s = w @ q)"
  by (induction s w rule: startsWith.induct) auto

text \<open>\<open>includesStr\<close> is the substring test.\<close>

lemma includesStr_iff: "includesStr s w \<longleftrightarrow> (\<exists>p q. s = p @ w @ q)"
proof (induction s)
  case Nil
  then show ?case by simp
next
  case (Cons c cs)
  show ?case
  proof
    assume "includesStr (c # cs) w"
    then consider "startsWith (c # cs) w" | "includesStr cs w" by auto
    then show "\<exists>p q. c # cs = p @ w @ q"
    proof cases
      case 1
      then obtain q where "c # cs = w @ q" by (auto simp: startsWith_iff)
      then have "c # cs = [] @ w @ q" by simp
      then show ?thesis by blast
    next
      case 2
      then obtain p q where "cs = p @ w @ q" using Cons.IH by blast
      then have "c # cs = (c # p) @ w @ q" by simp
      then show ?thesis by blast
    qed
  next
    assume "\<exists>p q. c # cs = p @ w @ q"
    then obtain p q where pq: "c # cs = p @ w @ q" by blast
    show "includesStr (c # cs) w"
    proof (cases p)
      case Nil
      with pq have "startsWith (c # cs) w" by (auto simp: startsWith_iff)
      then show ?thesis by simp
    next
      case (Cons a p')
      with pq have "cs = p' @ w @ q" by simp
      then have "includesStr cs w" using Cons.IH by blast
      then show ?thesis by simp
    qed
  qed
qed

subsection \<open>analyzeSentiment\<close>

lemma analyzeSentiment_cases:
  fixes input :: string
  defines "hp \<equiv> some positive (\<lambda>w. includesStr (toLowerCase input) w)"
    and "hn \<equiv> some negative (\<lambda>w. includesStr (toLowerCase input) w)"
    and "he \<equiv> some emphasis (\<lambda>w. includesStr (toLowerCase input) w)"
  shows "analyzeSentiment input =
      (if hp \<and> \<not> hn then
         \<lparr> sentiment = ''positive'', intensity = (if he then 8 else 6), confidence = 75 / 100,
           should_celebrate = he, should_comfort = False \<rparr>
       else if hn \<and> \<not> hp then
         \<lparr> sentiment = ''negative'', intensity = (if he then 7 else 5), confidence = 75 / 100,
           should_celebrate = False, should_comfort = True \<rparr>
       else
         \<lparr> sentiment = ''neutral'', intensity = 5, confidence = 75 / 100,
           should_celebrate = False, should_comfort = False \<rparr>)"
  unfolding analyzeSentiment_def Let_def hp_def [symmetric] hn_def [symmetric] he_def [symmetric]
  by (cases hp; cases hn; cases he) simp_all

text \<open>
  C9. For every input, \<open>analyzeSentiment\<close> returns a sentiment among \<open>positive\<close>,
  \<open>negative\<close> and \<open>neutral\<close>, an intensity among 5, 6, 7 and 8, and the confidence
  0.75. An input that contains a keyword of the positive list and a keyword of the
  negative list is \<open>neutral\<close> with intensity 5. \<open>should_celebrate\<close> holds only for a
  positive sentiment, \<open>should_comfort\<close> only for a negative one.
\<close>

theorem analyzeSentiment_range:
  "sentiment (analyzeSentiment input) \<in> {''positive'', ''negative'', ''neutral''}
   \<and> intensity (analyzeSentiment input) \<in> {5, 6, 7, 8}
   \<and> sentiment_result.confidence (analyzeSentiment input) = 75 / 100
   \<and> ((\<exists>p \<in> set positive. includesStr (toLowerCase input) p)
        \<and> (\<exists>n \<in> set negative. includesStr (toLowerCase input) n)
       \<longrightarrow> sentiment (analyzeSentiment input) = ''neutral'' \<and> intensity (analyzeSentiment input) = 5)
   \<and> (should_celebrate (analyzeSentiment input) \<longrightarrow> sentiment (analyzeSentiment input) = ''positive'')
   \<and> (should_comfort (analyzeSentiment input) \<longrightarrow> sentiment (analyzeSentiment input) = ''negative'')"
proof -
  define hp where "hp = some positive (\<lambda>w. includesStr (toLowerCase input) w)"
  define hn where "hn = some negative (\<lambda>w. includesStr (toLowerCase input) w)"
  define he where "he = some emphasis (\<lambda>w. includesStr (toLowerCase input) w)"
  note r = analyzeSentiment_cases [of input, folded hp_def hn_def he_def]
  have both: "hp \<longleftrightarrow> (\<exists>p \<in> set positive. includesStr (toLowerCase input) p)"
    "hn \<longleftrightarrow> (\<exists>n \<in> set negative. includesStr (toLowerCase input) n)"
    by (simp_all add: hp_def hn_def some_def list_ex_iff)
  show ?thesis
    unfolding r both [symmetric] by (cases hp; cases hn; cases he) simp_all
qed

lemmas sentiment_eval =
  analyzeSentiment_def Let_def some_def positive_def negative_def emphasis_def
  toLowerCase_def lowerChar_def

theorem analyzeSentiment_range_witness:
  "''happy'' \<in> set positive \<and> includesStr (toLowerCase ''Happy but SAD'') ''happy''
   \<and> ''sad'' \<in> set negative \<and> includesStr (toLowerCase ''Happy but SAD'') ''sad''
   \<and> sentiment (analyzeSentiment ''Happy but SAD'') = ''neutral''
   \<and> intensity (analyzeSentiment ''Happy but SAD'') = 5
   \<and> should_celebrate (analyzeSentiment ''bohot mast'')
   \<and> sentiment (analyzeSentiment ''bohot mast'') = ''positive''
   \<and> should_comfort (analyzeSentiment ''so tired'')
   \<and> sentiment (analyzeSentiment ''so tired'') = ''negative''"
proof -
  have p: "''happy'' \<in> set positive" by (simp add: positive_def)
  have n: "''sad'' \<in> set negative" by (simp add: negative_def)
  have ip: "includesStr (toLowerCase ''Happy but SAD'') ''happy''"
    by (simp add: toLowerCase_def lowerChar_def)
  have ineg: "includesStr (toLowerCase ''Happy but SAD'') ''sad''"
    by (simp add: toLowerCase_def lowerChar_def)
  have c: "should_celebrate (analyzeSentiment ''bohot mast'')" by (simp add: sentiment_eval)
  have d: "should_comfort (analyzeSentiment ''so tired'')" by (simp add: sentiment_eval)
  have both: "sentiment (analyzeSentiment ''Happy but SAD'') = ''neutral''
      \<and> intensity (analyzeSentiment ''Happy but SAD'') = 5"
    using analyzeSentiment_range [of "''Happy but SAD''"] p n ip ineg by blast
  have cel: "sentiment (analyzeSentiment ''bohot mast'') = ''positive''"
    using analyzeSentiment_range [of "''bohot mast''"] c by blast
  have com: "sentiment (analyzeSentiment ''so tired'') = ''negative''"
    using analyzeSentiment_range [of "''so tired''"] d by blast
  from p n ip ineg c d both cel com show ?thesis by simp
qed

subsection \<open>analyzeHinglish\<close>

lemma objectKeys_distinct: "distinct (objectKeys obj)"
  by (simp add: objectKeys_def)

lemma objectKeys_set: "set (objectKeys obj) = fst ` set obj"
  by (simp add: objectKeys_def)

lemma length_filter_card:
  "distinct xs \<Longrightarrow> length (filter P xs) = card {x \<in> set xs. P x}"
proof -
  assume "distinct xs"
  then have "length (filter P xs) = card ({x. P x} \<inter> set xs)"
    by (rule distinct_length_filter)
  moreover have "{x. P x} \<inter> set xs = {x \<in> set xs. P x}" by blast
  ultimately show ?thesis by simp
qed

text \<open>The number of detected words is the number of keys that occur in the input.\<close>

lemma detected_words_count:
  "length (detected_words (analyzeHinglish input))
     = card {w \<in> fst ` set dictionary. includesStr (toLowerCase input) w}"
proof -
  have "detected_words (analyzeHinglish input)
          = filter (\<lambda>w. includesStr (toLowerCase input) w) (objectKeys dictionary)"
    by (simp add: analyzeHinglish_def Let_def)
  then show ?thesis
    using length_filter_card [OF objectKeys_distinct, of "\<lambda>w. includesStr (toLowerCase input) w" dictionary]
    by (simp add: objectKeys_set)
qed

lemma analyzeHinglish_fields:
  "hinglish_result.confidence (analyzeHinglish input)
     = min (rat_of_nat (length (detected_words (analyzeHinglish input))) * (2 / 10) + 5 / 10) (9 / 10)"
  "is_hinglish (analyzeHinglish input) \<longleftrightarrow> length (detected_words (analyzeHinglish input)) > 0"
  "length (detected_words (analyzeHinglish input)) = 0 \<Longrightarrow> translation (analyzeHinglish input) = input"
  by (simp_all add: analyzeHinglish_def Let_def)

text \<open>
  C10. For every input, the confidence of \<open>analyzeHinglish\<close> is
  \<open>min (0.2 * k + 0.5) 0.9\<close>, where \<open>k\<close> is the number of keys of the dictionary that
  occur in the lower-cased input, so it lies between 0.5 and 0.9; and when \<open>k = 0\<close>
  the result has \<open>is_hinglish\<close> false and the input itself as translation.
\<close>

theorem analyzeHinglish_confidence:
  fixes input :: string
  defines "k \<equiv> card {w \<in> fst ` set dictionary. includesStr (toLowerCase input) w}"
  shows "hinglish_result.confidence (analyzeHinglish input) = min (2 / 10 * rat_of_nat k + 5 / 10) (9 / 10)
   \<and> 5 / 10 \<le> hinglish_result.confidence (analyzeHinglish input)
   \<and> hinglish_result.confidence (analyzeHinglish input) \<le> 9 / 10
   \<and> (k = 0 \<longrightarrow> \<not> is_hinglish (analyzeHinglish input) \<and> translation (analyzeHinglish input) = input)"
proof -
  have len: "length (detected_words (analyzeHinglish input)) = k"
    unfolding k_def by (rule detected_words_count)
  have c: "hinglish_result.confidence (analyzeHinglish input) = min (2 / 10 * rat_of_nat k + 5 / 10) (9 / 10)"
    unfolding analyzeHinglish_fields(1) [of input] len
    by (simp only: mult.commute [of "rat_of_nat k"])
  have "(0::rat) \<le> rat_of_nat k" by simp
  then have "(5 / 10 :: rat) \<le> 2 / 10 * rat_of_nat k + 5 / 10" by simp
  moreover have "(5 / 10 :: rat) \<le> 9 / 10" by simp
  ultimately have lo: "5 / 10 \<le> min (2 / 10 * rat_of_nat k + 5 / 10) (9 / 10 :: rat)"
    by (rule min.boundedI)
  have hi: "min (2 / 10 * rat_of_nat k + 5 / 10) (9 / 10 :: rat) \<le> 9 / 10"
    by (rule min.cobounded2)
  have z: "k = 0 \<longrightarrow> \<not> is_hinglish (analyzeHinglish input) \<and> translation (analyzeHinglish input) = input"
    using analyzeHinglish_fields(2,3) [of input] len by simp
  from lo hi have "5 / 10 \<le> hinglish_result.confidence (analyzeHinglish input)"
    "hinglish_result.confidence (analyzeHinglish input) \<le> 9 / 10"
    unfolding c by blast+
  with c z show ?thesis by blast
qed

lemma keys_eval: "objectKeys dictionary = [''kya'', ''baat'', ''hai'', ''yaar'', ''mast'', ''thak'', ''gaya'',
  ''kar'', ''raha'', ''acha'', ''bohot'', ''nahi'', ''kuch'', ''samajh'',
  ''aa'', ''rhi'', ''rha'', ''ka'', ''kahan'', ''kab'', ''kaise'', ''kyun'',
  ''kitna'', ''badiya'', ''badhiya'', ''lage'', ''sahi'', ''galat'',
  ''han'', ''hmm'', ''haha'', ''lol'', ''arre'', ''chal'', ''chalo'',
  ''sun'', ''bol'', ''bolo'', ''theek'', ''bas'', ''arey'', ''dost'',
  ''bhai'']"
  by (simp add: objectKeys_def dictionary_def)

theorem analyzeHinglish_confidence_witness:
  "card {w \<in> fst ` set dictionary. includesStr (toLowerCase ''Hello there'') w} = 0
   \<and> \<not> is_hinglish (analyzeHinglish ''Hello there'')
   \<and> translation (analyzeHinglish ''Hello there'') = ''Hello there''"
proof -
  have "filter (\<lambda>w. includesStr (toLowerCase ''Hello there'') w) (objectKeys dictionary) = []"
    unfolding keys_eval by (simp add: toLowerCase_def lowerChar_def)
  then have "{w \<in> set (objectKeys dictionary). includesStr (toLowerCase ''Hello there'') w} = {}"
    by (simp add: filter_empty_conv)
  then have "card {w \<in> fst ` set dictionary. includesStr (toLowerCase ''Hello there'') w} = 0"
    by (simp add: objectKeys_set)
  with analyzeHinglish_confidence [of "''Hello there''"] show ?thesis by blast
qed

section \<open>Properties of HinglishChainPro\<close>

subsection \<open>init and translate\<close>

lemma init_chain: "chain (init this) = Some (builtChain this)"
  by (cases "chain this") (simp_all add: init_def builtChain_def)

lemma init_fields:
  "modelName (init this) = modelName this"
  "maxRetries (init this) = maxRetries this"
  "retryDelay (init this) = retryDelay this"
  by (simp_all add: init_def)

lemma init_init: "init (init this) = init this"
  by (simp add: init_def)

lemma builtChain_init: "builtChain (init this) = builtChain this"
  using init_chain [of this] by (simp add: builtChain_def)

lemma calls_append: "calls (w @ v) = calls w + calls v"
  by (simp add: calls_def)

lemma calls_consoleLog: "calls (consoleLog s w) = calls w"
  by (simp add: calls_def consoleLog_def)

lemma calls_snoc: "calls (w @ [e]) = (if isCall e then Suc (calls w) else calls w)"
  by (simp add: calls_def)

text \<open>What \<open>translate\<close> does, by the outcome of its one call to the collaborator.\<close>

lemma translate_eq:
  "translate model text (this, w) =
     (case model (calls w) (builtChain this) text of
        Inr result \<Rightarrow>
          (Inr result, init this,
           w @ [ConsoleLog (arrows @ '' Translating: '' @ quote @ text @ quote),
                ChainInvoke (builtChain this) text,
                ConsoleLog (checkMark @ '' Translation complete!'')])
      | Inl error \<Rightarrow>
          (Inl (translateCatch error), init this,
           w @ [ConsoleLog (arrows @ '' Translating: '' @ quote @ text @ quote),
                ChainInvoke (builtChain this) text]))"
  by (simp add: translate_def invokeChain_def init_chain calls_snoc Let_def consoleLog_def
      split: sum.split)

text \<open>\<open>translate\<close> never throws an error named \<open>OutputParserException\<close>.\<close>

lemma translateCatch_name: "name (translateCatch e) \<noteq> ''OutputParserException''"
  by (simp add: translateCatch_def Error_def)

lemma translateCatch_transport:
  "code e \<noteq> Some ''ECONNREFUSED'' \<Longrightarrow> name e \<noteq> ''OutputParserException'' \<Longrightarrow> translateCatch e = e"
  by (simp add: translateCatch_def)

subsection \<open>translateWithRetry\<close>

text \<open>One failed attempt that is not the last: the loop logs, waits and goes on.\<close>

lemma attemptLoop_failed:
  assumes "attempt \<le> maxRetries this" and "model (calls w) (builtChain this) text = Inl e"
  shows "attemptLoop model text attempt lastError (this, w) =
           attemptLoop model text (attempt + 1) (Some (translateCatch e))
             (init this,
              w @ [ConsoleLog (arrows @ '' Attempt '' @ showInt attempt @ ''/''
                                 @ showInt (maxRetries this) @ ''...''),
                   ConsoleLog (arrows @ '' Translating: '' @ quote @ text @ quote),
                   ChainInvoke (builtChain this) text,
                   ConsoleLog (crossMark @ '' Attempt '' @ showInt attempt @ '' failed: ''
                                 @ message (translateCatch e))]
                @ (if attempt < maxRetries this
                   then [ConsoleLog (hourglass @ '' Retrying in '' @ showInt (retryDelay this) @ ''ms...''),
                         SetTimeout (retryDelay this)]
                   else []))"
  using assms
  by (subst attemptLoop.simps)
     (simp add: translate_eq calls_snoc translateCatch_name init_fields consoleLog_def)


lemma attemptLoop_exhausted:
  assumes "\<not> attempt \<le> maxRetries this"
  shows "attemptLoop model text attempt (Some e) (this, w) =
           (Inl (Error (''Failed after '' @ showInt (maxRetries this) @ '' attempts: '' @ message e)),
            this, w)"
  using assms by (subst attemptLoop.simps) simp

lemma showInt_3: "showInt 3 = ''3''"
  by (simp add: showInt_def showNat.simps)

lemma attempts_append: "attempts (w @ v) = attempts w @ attempts v"
  by (simp add: attempts_def)

lemma constructor_defaults:
  "maxRetries (HinglishChainPro m None) = 3"
  "retryDelay (HinglishChainPro m None) = 1000"
  "chain (HinglishChainPro m opts) = None"
  by (simp_all add: HinglishChainPro_def orDefault_def Let_def)

text \<open>
  Three attempts that all fail, with \<open>maxRetries = 3\<close>: the errors thrown by the three
  calls are \<open>e0\<close>, \<open>e1\<close> and \<open>e2\<close>.
\<close>

lemma three_failed_attempts:
  fixes model :: "'r chainModel"
  assumes three: "maxRetries this = 3"
    and e0: "model (calls w) (builtChain this) text = Inl e0"
    and e1: "model (calls w + 1) (builtChain this) text = Inl e1"
    and e2: "model (calls w + 2) (builtChain this) text = Inl e2"
  shows "\<exists>trace. translateWithRetry model text (this, w) =
           (Inl (Error (''Failed after 3 attempts: '' @ message (translateCatch e2))), init this, w @ trace)
         \<and> attempts trace =
             [ChainInvoke (builtChain this) text, SetTimeout (retryDelay this),
              ChainInvoke (builtChain this) text, SetTimeout (retryDelay this),
              ChainInvoke (builtChain this) text]"
proof -
  let ?c = "builtChain this"
  let ?d = "retryDelay this"
  define t1 where "t1 =
     [ConsoleLog (arrows @ '' Attempt '' @ showInt 1 @ ''/'' @ showInt 3 @ ''...''),
      ConsoleLog (arrows @ '' Translating: '' @ quote @ text @ quote),
      ChainInvoke ?c text,
      ConsoleLog (crossMark @ '' Attempt '' @ showInt 1 @ '' failed: '' @ message (translateCatch e0)),
      ConsoleLog (hourglass @ '' Retrying in '' @ showInt ?d @ ''ms...''),
      SetTimeout ?d]"
  define t2 where "t2 =
     [ConsoleLog (arrows @ '' Attempt '' @ showInt 2 @ ''/'' @ showInt 3 @ ''...''),
      ConsoleLog (arrows @ '' Translating: '' @ quote @ text @ quote),
      ChainInvoke ?c text,
      ConsoleLog (crossMark @ '' Attempt '' @ showInt 2 @ '' failed: '' @ message (translateCatch e1)),
      ConsoleLog (hourglass @ '' Retrying in '' @ showInt ?d @ ''ms...''),
      SetTimeout ?d]"
  define t3 where "t3 =
     [ConsoleLog (arrows @ '' Attempt '' @ showInt 3 @ ''/'' @ showInt 3 @ ''...''),
      ConsoleLog (arrows @ '' Translating: '' @ quote @ text @ quote),
      ChainInvoke ?c text,
      ConsoleLog (crossMark @ '' Attempt '' @ showInt 3 @ '' failed: '' @ message (translateCatch e2))]"
  have c1: "calls (w @ t1) = calls w + 1" and c2: "calls ((w @ t1) @ t2) = calls w + 2"
    by (simp_all add: calls_append t1_def t2_def calls_def)
  have m: "maxRetries (init this) = 3" "builtChain (init this) = ?c" "retryDelay (init this) = ?d"
    using three by (simp_all add: init_fields builtChain_init)
  have s1: "attemptLoop model text 1 None (this, w)
              = attemptLoop model text 2 (Some (translateCatch e0)) (init this, w @ t1)"
    using attemptLoop_failed [of 1 this model w "text" e0 None] three e0 by (simp add: t1_def)
  have s2: "attemptLoop model text 2 (Some (translateCatch e0)) (init this, w @ t1)
              = attemptLoop model text 3 (Some (translateCatch e1)) (init this, (w @ t1) @ t2)"
    using attemptLoop_failed [of 2 "init this" model "w @ t1" "text" e1 "Some (translateCatch e0)"] m e1 c1
    by (simp add: t2_def init_init)
  have s3: "attemptLoop model text 3 (Some (translateCatch e1)) (init this, (w @ t1) @ t2)
              = attemptLoop model text 4 (Some (translateCatch e2)) (init this, ((w @ t1) @ t2) @ t3)"
    using attemptLoop_failed [of 3 "init this" model "(w @ t1) @ t2" "text" e2 "Some (translateCatch e1)"] m e2 c2
    by (simp add: t3_def init_init)
  have s4: "attemptLoop model text 4 (Some (translateCatch e2)) (init this, ((w @ t1) @ t2) @ t3)
              = (Inl (Error (''Failed after 3 attempts: '' @ message (translateCatch e2))),
                 init this, ((w @ t1) @ t2) @ t3)"
    using attemptLoop_exhausted [of 4 "init this" model "text" "translateCatch e2" "((w @ t1) @ t2) @ t3"] m
    by (simp add: showInt_3)
  have r: "translateWithRetry model text (this, w) =
             (Inl (Error (''Failed after 3 attempts: '' @ message (translateCatch e2))),
              init this, w @ (t1 @ t2 @ t3))"
    unfolding translateWithRetry_def s1 s2 s3 s4 by simp
  have a: "attempts (t1 @ t2 @ t3) =
             [ChainInvoke ?c text, SetTimeout ?d, ChainInvoke ?c text, SetTimeout ?d, ChainInvoke ?c text]"
    by (simp add: attempts_def t1_def t2_def t3_def)
  from r a show ?thesis by blast
qed

text \<open>
  C1. With \<open>maxRetries = 3\<close>, which is the default, and a collaborator whose every call
  fails with a timeout error, \<open>translateWithRetry\<close> calls the collaborator exactly three
  times, waits \<open>retryDelay\<close> (by default 1000 ms) between two attempts and not after the
  last one, and throws an error whose message carries the count 3 and the message of the
  last error.
\<close>

theorem translateWithRetry_timeouts:
  fixes model :: "'r chainModel"
  assumes "maxRetries this = 3"
    and "\<And>n c. model n c text = Inl (e n)"
    and "\<And>n. code (e n) = Some ''ETIMEDOUT'' \<and> name (e n) \<noteq> ''OutputParserException''"
  shows "fst (translateWithRetry model text (this, w))
           = Inl (Error (''Failed after 3 attempts: '' @ message (e (calls w + 2))))
     \<and> attempts (snd (snd (translateWithRetry model text (this, w))))
           = attempts w @
             [ChainInvoke (builtChain this) text, SetTimeout (retryDelay this),
              ChainInvoke (builtChain this) text, SetTimeout (retryDelay this),
              ChainInvoke (builtChain this) text]
     \<and> maxRetries (HinglishChainPro m None) = 3
     \<and> retryDelay (HinglishChainPro m None) = 1000"
proof -
  have "translateCatch (e (calls w + 2)) = e (calls w + 2)"
    using assms(3) [of "calls w + 2"] by (simp add: translateCatch_transport)
  with three_failed_attempts [of this model w "text" "e (calls w)" "e (calls w + 1)" "e (calls w + 2)"]
    assms(1,2)
  obtain trace where
    "translateWithRetry model text (this, w) =
       (Inl (Error (''Failed after 3 attempts: '' @ message (e (calls w + 2)))), init this, w @ trace)"
    "attempts trace =
       [ChainInvoke (builtChain this) text, SetTimeout (retryDelay this),
        ChainInvoke (builtChain this) text, SetTimeout (retryDelay this),
        ChainInvoke (builtChain this) text]"
    by auto
  then show ?thesis
    by (simp add: attempts_append constructor_defaults)
qed

theorem translateWithRetry_timeouts_witness:
  "maxRetries (HinglishChainPro None None) = 3
   \<and> code timeoutError = Some ''ETIMEDOUT'' \<and> name timeoutError \<noteq> ''OutputParserException''
   \<and> fst (translateWithRetry (failingModel timeoutError :: unit chainModel) ''kitna badiya hai''
             (HinglishChainPro None None, []))
         = Inl (Error ''Failed after 3 attempts: connect ETIMEDOUT 127.0.0.1:11434'')
   \<and> attempts (snd (snd (translateWithRetry (failingModel timeoutError :: unit chainModel)
                            ''kitna badiya hai'' (HinglishChainPro None None, []))))
         = [ChainInvoke (Chain FriendPrompt ''kimi-k2.5:cloud'') ''kitna badiya hai'', SetTimeout 1000,
            ChainInvoke (Chain FriendPrompt ''kimi-k2.5:cloud'') ''kitna badiya hai'', SetTimeout 1000,
            ChainInvoke (Chain FriendPrompt ''kimi-k2.5:cloud'') ''kitna badiya hai'']"
proof -
  have m: "maxRetries (HinglishChainPro None None) = 3" by (rule constructor_defaults)
  have t: "code timeoutError = Some ''ETIMEDOUT'' \<and> name timeoutError \<noteq> ''OutputParserException''"
    by (simp add: timeoutError_def)
  have b: "builtChain (HinglishChainPro None None) = Chain FriendPrompt ''kimi-k2.5:cloud''"
    "retryDelay (HinglishChainPro None None) = 1000"
    by (simp_all add: builtChain_def HinglishChainPro_def orDefault_def Let_def)
  show ?thesis
    using translateWithRetry_timeouts
            [of "HinglishChainPro None None" "failingModel timeoutError :: unit chainModel"
                "''kitna badiya hai''" "\<lambda>n. timeoutError" "[]" None, OF m _ t]
    by (simp add: b m t attempts_def calls_def timeoutError_def failingModel_def)
qed

text \<open>
  C2. A collaborator whose responses all fail validation: \<open>translate\<close> replaces the
  parser's exception by a plain \<open>Error\<close>, so the test for \<open>OutputParserException\<close> in
  \<open>translateWithRetry\<close> never fires; the call is attempted three times and the error
  thrown is the wrapper \<open>Failed after 3 attempts\<close>.
\<close>

theorem translateWithRetry_retries_validation_error:
  "fst (translateWithRetry (failingModel parserError :: unit chainModel) ''kya baat hai''
          (HinglishChainPro None None, []))
     = Inl (Error ''Failed after 3 attempts: Model returned invalid JSON. Try again.'')
   \<and> attempts (snd (snd (translateWithRetry (failingModel parserError :: unit chainModel)
                            ''kya baat hai'' (HinglishChainPro None None, []))))
     = [ChainInvoke (Chain FriendPrompt ''kimi-k2.5:cloud'') ''kya baat hai'', SetTimeout 1000,
        ChainInvoke (Chain FriendPrompt ''kimi-k2.5:cloud'') ''kya baat hai'', SetTimeout 1000,
        ChainInvoke (Chain FriendPrompt ''kimi-k2.5:cloud'') ''kya baat hai'']"
proof -
  have m: "maxRetries (HinglishChainPro None None) = 3" by (rule constructor_defaults)
  have b: "builtChain (HinglishChainPro None None) = Chain FriendPrompt ''kimi-k2.5:cloud''"
    "retryDelay (HinglishChainPro None None) = 1000"
    by (simp_all add: builtChain_def HinglishChainPro_def orDefault_def Let_def)
  have c: "message (translateCatch parserError) = ''Model returned invalid JSON. Try again.''"
    by (simp add: translateCatch_def parserError_def Error_def)
  from three_failed_attempts
         [of "HinglishChainPro None None" "failingModel parserError :: unit chainModel" "[]"
             "''kya baat hai''" parserError parserError parserError, OF m]
    failingModel_def [of parserError]
  obtain trace where
    "translateWithRetry (failingModel parserError :: unit chainModel) ''kya baat hai''
        (HinglishChainPro None None, [])
       = (Inl (Error (''Failed after 3 attempts: '' @ message (translateCatch parserError))),
          init (HinglishChainPro None None), [] @ trace)"
    "attempts trace =
       [ChainInvoke (builtChain (HinglishChainPro None None)) ''kya baat hai'',
        SetTimeout (retryDelay (HinglishChainPro None None)),
        ChainInvoke (builtChain (HinglishChainPro None None)) ''kya baat hai'',
        SetTimeout (retryDelay (HinglishChainPro None None)),
        ChainInvoke (builtChain (HinglishChainPro None None)) ''kya baat hai'']"
    by auto
  then show ?thesis by (simp add: b c)
qed

subsection \<open>translateStreamRaw\<close>

text \<open>
  With a callback, the loop hands it the value of \<open>chunk.content || chunk\<close> of every
  chunk, once each and in order, and appends that value's text to \<open>fullText\<close>.
\<close>

lemma consume_callback:
  "consume (Some f) chunks acc w =
     (Inr (acc @ concat (map (\<lambda>c. tokenString (chunkContent c)) chunks)),
      foldl (\<lambda>w t. f t w) w (map chunkContent chunks))"
  by (induction chunks arbitrary: acc w) (simp_all add: Let_def)

lemma translateStreamRaw_callback:
  assumes "stream (calls w) (modelName this) text = (chunks, None)"
  shows "translateStreamRaw stream text (Some f) (this, w) =
     (Inr \<lparr> translated_text = concat (map (\<lambda>c. tokenString (chunkContent c)) chunks) \<rparr>,
      init this,
      foldl (\<lambda>w t. f t w)
        (w @ [ConsoleLog (arrows @ '' Streaming translation: '' @ quote @ text @ quote @ newline),
              LlmStream (modelName this) text])
        (map chunkContent chunks)
        @ [ConsoleLog (newline @ checkMark @ '' Stream complete!'')])"
  using assms
  by (simp add: translateStreamRaw_def Let_def consume_callback init_fields calls_snoc consoleLog_def)

lemma foldl_recordToken: "foldl (\<lambda>w t. recordToken t w) w ts = w @ map OnToken ts"
  by (induction ts arbitrary: w) (simp_all add: recordToken_def)

lemma sinkCalls_append: "sinkCalls (w @ v) = sinkCalls w @ sinkCalls v"
  by (simp add: sinkCalls_def)

lemma sinkCalls_OnToken: "sinkCalls (map OnToken ts) = map OnToken ts"
  by (induction ts) (simp_all add: sinkCalls_def)

text \<open>
  When no chunk has an empty content, the callback receives the contents in order and
  the text returned is their concatenation.
\<close>

lemma translateStreamRaw_nonempty_increments:
  assumes "stream (calls w) (modelName this) text = (chunks, None)"
    and "\<forall>c \<in> set chunks. content c \<noteq> []"
  shows "fst (translateStreamRaw stream text (Some recordToken) (this, w))
           = Inr \<lparr> translated_text = concat (map content chunks) \<rparr>
       \<and> sinkCalls (snd (snd (translateStreamRaw stream text (Some recordToken) (this, w))))
           = sinkCalls w @ map (\<lambda>c. OnToken (Text (content c))) chunks"
proof -
  from assms(2) have t: "map chunkContent chunks = map (\<lambda>c. Text (content c)) chunks"
    by (simp add: chunkContent_def)
  from assms(2) have s: "map (\<lambda>c. tokenString (chunkContent c)) chunks = map content chunks"
    by (simp add: chunkContent_def)
  have r: "translateStreamRaw stream text (Some recordToken) (this, w) =
     (Inr \<lparr> translated_text = concat (map content chunks) \<rparr>,
      init this,
      (w @ [ConsoleLog (arrows @ '' Streaming translation: '' @ quote @ text @ quote @ newline),
              LlmStream (modelName this) text])
        @ map OnToken (map (\<lambda>c. Text (content c)) chunks)
        @ [ConsoleLog (newline @ checkMark @ '' Stream complete!'')])"
    using translateStreamRaw_callback [of stream w this "text" chunks recordToken] assms(1)
    by (simp add: s t foldl_recordToken)
  show ?thesis
    unfolding r using sinkCalls_OnToken [of "map (\<lambda>c. Text (content c)) chunks"]
    by (simp add: sinkCalls_append) (simp add: sinkCalls_def comp_def)
qed

lemma translateStreamRaw_hello_world:
  "fst (translateStreamRaw
          (streamOf [\<lparr> content = ''Hel'', toString = s \<rparr>, \<lparr> content = ''lo, '', toString = s \<rparr>,
                      \<lparr> content = ''world'', toString = s \<rparr>])
          ''mast hai yaar'' (Some recordToken) (HinglishChainPro None None, []))
     = Inr \<lparr> translated_text = ''Hello, world'' \<rparr>
   \<and> sinkCalls (snd (snd (translateStreamRaw
          (streamOf [\<lparr> content = ''Hel'', toString = s \<rparr>, \<lparr> content = ''lo, '', toString = s \<rparr>,
                      \<lparr> content = ''world'', toString = s \<rparr>])
          ''mast hai yaar'' (Some recordToken) (HinglishChainPro None None, []))))
     = [OnToken (Text ''Hel''), OnToken (Text ''lo, ''), OnToken (Text ''world'')]"
  using translateStreamRaw_nonempty_increments
          [of "streamOf [\<lparr> content = ''Hel'', toString = s \<rparr>, \<lparr> content = ''lo, '', toString = s \<rparr>,
                      \<lparr> content = ''world'', toString = s \<rparr>]"
              "[]" "HinglishChainPro None None" "''mast hai yaar''"
              "[\<lparr> content = ''Hel'', toString = s \<rparr>, \<lparr> content = ''lo, '', toString = s \<rparr>,
                      \<lparr> content = ''world'', toString = s \<rparr>]"]
  by (simp add: sinkCalls_def streamOf_def)

text \<open>
  C3. A stream in which one chunk has the empty text as content: \<open>chunk.content || chunk\<close>
  is then the chunk object, so the callback receives the object instead of the increment
  and the text of the object is appended to the result, which is not the concatenation
  \<open>Hello\<close> of the increments.
\<close>

theorem translateStreamRaw_empty_increment:
  "fst (translateStreamRaw
          (streamOf [\<lparr> content = ''Hel'', toString = ''[object Object]'' \<rparr>,
                      \<lparr> content = '''', toString = ''[object Object]'' \<rparr>,
                      \<lparr> content = ''lo'', toString = ''[object Object]'' \<rparr>])
          ''mast hai yaar'' (Some recordToken) (HinglishChainPro None None, []))
     = Inr \<lparr> translated_text = ''Hel[object Object]lo'' \<rparr>
   \<and> sinkCalls (snd (snd (translateStreamRaw
          (streamOf [\<lparr> content = ''Hel'', toString = ''[object Object]'' \<rparr>,
                      \<lparr> content = '''', toString = ''[object Object]'' \<rparr>,
                      \<lparr> content = ''lo'', toString = ''[object Object]'' \<rparr>])
          ''mast hai yaar'' (Some recordToken) (HinglishChainPro None None, []))))
     = [OnToken (Text ''Hel''),
        OnToken (Object \<lparr> content = '''', toString = ''[object Object]'' \<rparr>),
        OnToken (Text ''lo'')]"
  by (simp add: translateStreamRaw_callback foldl_recordToken chunkContent_def sinkCalls_def streamOf_def)

subsection \<open>handleError\<close>







subsection \<open>init\<close>

lemma HinglishChain_init_chain:
  "hc_chain (HinglishChain_init this) =
     Some (case hc_chain this of Some c \<Rightarrow> c | None \<Rightarrow> Chain TranslatorPrompt (hc_modelName this))"
  by (cases "hc_chain this") (simp_all add: HinglishChain_init_def)

lemma HinglishChain_translate_eq:
  "HinglishChain_translate model text (this, w) =
     (model (calls w)
        (case hc_chain this of Some c \<Rightarrow> c | None \<Rightarrow> Chain TranslatorPrompt (hc_modelName this)) text,
      HinglishChain_init this,
      w @ [ChainInvoke
             (case hc_chain this of Some c \<Rightarrow> c | None \<Rightarrow> Chain TranslatorPrompt (hc_modelName this))
             text])"
  by (simp add: HinglishChain_translate_def Let_def HinglishChain_init_chain)

lemma translate_this: "fst (snd (translate model text (this, w))) = init this"
  by (simp add: translate_eq split: sum.split)

lemma translate_attempts:
  "attempts (snd (snd (translate model text (this, w)))) = attempts w @ [ChainInvoke (builtChain this) text]"
  by (simp add: translate_eq attempts_def split: sum.split)

text \<open>
  C8. \<open>init\<close> is idempotent, for both classes: once the chain is built, \<open>init\<close>
  returns the instance as it is, whatever \<open>modelName\<close> has become, and so does the
  \<open>init\<close> inside \<open>translate\<close>; every later \<open>translate\<close> calls the collaborator
  with that same chain.
\<close>

theorem init_idempotent:
  "(chain this = Some c \<longrightarrow> init this = this)
   \<and> chain (init this) \<noteq> None
   \<and> init (init this) = init this
   \<and> chain (init ((init this) \<lparr> modelName := m \<rparr>)) = chain (init this)
   \<and> fst (snd (translate model text (this, w))) = init this
   \<and> (chain this = Some c \<longrightarrow>
        fst (snd (translate model text (this, w))) = this
        \<and> attempts (snd (snd (translate model text (this, w)))) = attempts w @ [ChainInvoke c text])
   \<and> attempts (snd (snd (translate model text' (snd (translate model text (this, w))))))
        = attempts w @ [ChainInvoke (builtChain this) text, ChainInvoke (builtChain this) text']
   \<and> (hc_chain that = Some c \<longrightarrow> HinglishChain_init that = that)
   \<and> hc_chain (HinglishChain_init that) \<noteq> None
   \<and> HinglishChain_init (HinglishChain_init that) = HinglishChain_init that
   \<and> fst (snd (HinglishChain_translate model text (that, w))) = HinglishChain_init that
   \<and> (hc_chain that = Some c \<longrightarrow>
        HinglishChain_translate model text (that, w)
          = (model (calls w) c text, that, w @ [ChainInvoke c text]))"
proof -
  have p1: "chain this = Some c \<longrightarrow> init this = this" by (simp add: init_def)
  have p2: "chain (init this) \<noteq> None" by (simp add: init_chain)
  have p3: "chain (init ((init this) \<lparr> modelName := m \<rparr>)) = chain (init this)"
    by (simp add: init_def)
  have p4: "chain this = Some c \<longrightarrow>
        fst (snd (translate model text (this, w))) = this
        \<and> attempts (snd (snd (translate model text (this, w)))) = attempts w @ [ChainInvoke c text]"
    by (simp add: translate_this translate_attempts init_def builtChain_def)
  have "snd (translate model text (this, w))
          = (init this, snd (snd (translate model text (this, w))))"
    using translate_this [of model "text" this w] by (metis prod.collapse)
  then have p5: "attempts (snd (snd (translate model text' (snd (translate model text (this, w))))))
        = attempts w @ [ChainInvoke (builtChain this) text, ChainInvoke (builtChain this) text']"
    using translate_attempts [of model text' "init this" "snd (snd (translate model text (this, w)))"]
    by (simp add: translate_attempts builtChain_init)
  have q1: "hc_chain that = Some c \<longrightarrow> HinglishChain_init that = that"
    by (simp add: HinglishChain_init_def)
  have q2: "hc_chain (HinglishChain_init that) \<noteq> None" by (simp add: HinglishChain_init_chain)
  have q3: "HinglishChain_init (HinglishChain_init that) = HinglishChain_init that"
    by (simp add: HinglishChain_init_def)
  have q4: "fst (snd (HinglishChain_translate model text (that, w))) = HinglishChain_init that"
    by (simp add: HinglishChain_translate_eq)
  have q5: "hc_chain that = Some c \<longrightarrow>
        HinglishChain_translate model text (that, w)
          = (model (calls w) c text, that, w @ [ChainInvoke c text])"
    by (simp add: HinglishChain_translate_eq HinglishChain_init_def)
  from p1 p2 init_init [of this] p3 translate_this [of model "text" this w] p4 p5 q1 q2 q3 q4 q5
  show ?thesis by (intro conjI)
qed

theorem init_idempotent_witness:
  "chain (init (HinglishChainPro None None)) = Some (Chain FriendPrompt ''kimi-k2.5:cloud'')
   \<and> init (init (HinglishChainPro None None)) = init (HinglishChainPro None None)
   \<and> fst (snd (translate echoModel ''kya'' (init (HinglishChainPro None None), [])))
        = init (HinglishChainPro None None)
   \<and> attempts (snd (snd (translate echoModel ''kya''
                            (init (HinglishChainPro None None), []))))
        = [ChainInvoke (Chain FriendPrompt ''kimi-k2.5:cloud'') ''kya'']
   \<and> hc_chain (HinglishChain_init (HinglishChain None)) = Some (Chain TranslatorPrompt ''kimi-k2.5:cloud'')
   \<and> HinglishChain_init (HinglishChain_init (HinglishChain None)) = HinglishChain_init (HinglishChain None)
   \<and> HinglishChain_translate echoModel ''kya'' (HinglishChain_init (HinglishChain None), [])
        = (Inr ''kya'', HinglishChain_init (HinglishChain None),
           [ChainInvoke (Chain TranslatorPrompt ''kimi-k2.5:cloud'') ''kya''])"
proof -
  let ?c = "Chain FriendPrompt ''kimi-k2.5:cloud''"
  let ?d = "Chain TranslatorPrompt ''kimi-k2.5:cloud''"
  have c: "chain (init (HinglishChainPro None None)) = Some ?c"
    by (simp add: init_def HinglishChainPro_def Let_def)
  have d: "hc_chain (HinglishChain_init (HinglishChain None)) = Some ?d"
    by (simp add: HinglishChain_init_def HinglishChain_def)
  note i = init_idempotent [of "init (HinglishChainPro None None)" ?c m
             echoModel "''kya''" "[]" "''kya''"
             "HinglishChain_init (HinglishChain None)"]
  note j = init_idempotent [of "init (HinglishChainPro None None)" ?d m
             echoModel "''kya''" "[]" "''kya''"
             "HinglishChain_init (HinglishChain None)"]
  have a: "init (init (HinglishChainPro None None)) = init (HinglishChainPro None None)"
    using i c by (elim conjE) (erule mp)
  have b: "fst (snd (translate echoModel ''kya'' (init (HinglishChainPro None None), [])))
        = init (HinglishChainPro None None)
     \<and> attempts (snd (snd (translate echoModel ''kya''
                            (init (HinglishChainPro None None), []))))
        = attempts [] @ [ChainInvoke ?c ''kya'']"
    using i c by (elim conjE) (erule mp)
  have e: "HinglishChain_init (HinglishChain_init (HinglishChain None)) = HinglishChain_init (HinglishChain None)"
    using j d by (elim conjE) (erule mp)
  have f: "HinglishChain_translate echoModel ''kya'' (HinglishChain_init (HinglishChain None), [])
        = (echoModel (calls []) ?d ''kya'', HinglishChain_init (HinglishChain None),
           [] @ [ChainInvoke ?d ''kya''])"
    using j d by (elim conjE) (erule mp)
  from a b c d e f show ?thesis by (simp add: attempts_def echoModel_def)
qed

subsection \<open>Failure paths\<close>











section \<open>Properties of the validation\<close>

lemma checkAll_strings: "checkAll f KString (map JStr xs) = None"
  by (induction xs) simp_all

text \<open>
  The validation of \<open>hinglishResponseSchema\<close>, field by field, for a candidate whose
  three required fields are well-formed.
\<close>

lemma validate_hinglishResponse:
  assumes "getProp obj ''translated_text'' = Some (JStr t)"
    and "getProp obj ''detected_language'' = Some (JStr d)"
    and "getProp obj ''confidence'' = Some (JNum c)"
    and "0 \<le> c" and "c \<le> 1"
  shows "validate hinglishResponseSchema (JObj obj) =
     (case (case getProp obj ''alternative_translations'' of
              None \<Rightarrow> None
            | Some v \<Rightarrow> checkValue ''alternative_translations'' (KArray KString) v) of
        Some e \<Rightarrow> Inl e
      | None \<Rightarrow>
         (case (case getProp obj ''cultural_notes'' of
                  None \<Rightarrow> None
                | Some v \<Rightarrow> checkValue ''cultural_notes'' KString v) of
            Some e \<Rightarrow> Inl e
          | None \<Rightarrow>
              Inr (JObj ([(''translated_text'', JStr t), (''detected_language'', JStr d),
                          (''confidence'', JNum c),
                          (''alternative_translations'',
                           case getProp obj ''alternative_translations'' of
                             None \<Rightarrow> JArr [] | Some v \<Rightarrow> v)]
                         @ (case getProp obj ''cultural_notes'' of
                              None \<Rightarrow> [] | Some v \<Rightarrow> [(''cultural_notes'', v)])))))"
  using assms
  by (simp add: validate_def hinglishResponseSchema_def split: option.split)

text \<open>
  C6. A candidate without \<open>alternative_translations\<close> validates, with the empty
  array for that field; a candidate without \<open>cultural_notes\<close> validates, and the field
  is absent from the value; neither is an error.
\<close>

theorem missing_optional_fields:
  assumes "getProp obj ''translated_text'' = Some (JStr t)"
    and "getProp obj ''detected_language'' = Some (JStr d)"
    and "getProp obj ''confidence'' = Some (JNum c)"
    and "0 \<le> c" and "c \<le> 1"
  shows
    "(getProp obj ''alternative_translations'' = None
        \<and> getProp obj ''cultural_notes'' = Some (JStr n) \<longrightarrow>
      validate hinglishResponseSchema (JObj obj) =
        Inr (JObj [(''translated_text'', JStr t), (''detected_language'', JStr d),
                   (''confidence'', JNum c), (''alternative_translations'', JArr []),
                   (''cultural_notes'', JStr n)]))
     \<and> (getProp obj ''alternative_translations'' = Some (JArr (map JStr alts))
        \<and> getProp obj ''cultural_notes'' = None \<longrightarrow>
      validate hinglishResponseSchema (JObj obj) =
        Inr (JObj [(''translated_text'', JStr t), (''detected_language'', JStr d),
                   (''confidence'', JNum c),
                   (''alternative_translations'', JArr (map JStr alts))]))
     \<and> (getProp obj ''alternative_translations'' = None
        \<and> getProp obj ''cultural_notes'' = None \<longrightarrow>
      validate hinglishResponseSchema (JObj obj) =
        Inr (JObj [(''translated_text'', JStr t), (''detected_language'', JStr d),
                   (''confidence'', JNum c), (''alternative_translations'', JArr [])]))"
  unfolding validate_hinglishResponse [OF assms]
  by (simp add: checkAll_strings)

theorem missing_optional_fields_witness:
  "validate hinglishResponseSchema
     (JObj [(''translated_text'', JStr ''what's up friend''), (''detected_language'', JStr ''Hinglish''),
            (''confidence'', JNum (9 / 10)), (''cultural_notes'', JStr ''informal'')])
     = Inr (JObj [(''translated_text'', JStr ''what's up friend''), (''detected_language'', JStr ''Hinglish''),
                  (''confidence'', JNum (9 / 10)), (''alternative_translations'', JArr []),
                  (''cultural_notes'', JStr ''informal'')])
   \<and> validate hinglishResponseSchema
     (JObj [(''translated_text'', JStr ''what's up friend''), (''detected_language'', JStr ''Hinglish''),
            (''confidence'', JNum (9 / 10)), (''alternative_translations'', JArr (map JStr [''hey friend'']))])
     = Inr (JObj [(''translated_text'', JStr ''what's up friend''), (''detected_language'', JStr ''Hinglish''),
                  (''confidence'', JNum (9 / 10)),
                  (''alternative_translations'', JArr (map JStr [''hey friend'']))])
   \<and> validate hinglishResponseSchema
     (JObj [(''translated_text'', JStr ''what's up friend''), (''detected_language'', JStr ''Hinglish''),
            (''confidence'', JNum (9 / 10))])
     = Inr (JObj [(''translated_text'', JStr ''what's up friend''), (''detected_language'', JStr ''Hinglish''),
                  (''confidence'', JNum (9 / 10)), (''alternative_translations'', JArr [])])"
proof -
  let ?base = "[(''translated_text'', JStr ''what's up friend''), (''detected_language'', JStr ''Hinglish''),
            (''confidence'', JNum (9 / 10))]"
  have r: "(0::rat) \<le> 9 / 10" "(9 / 10 :: rat) \<le> 1" by simp_all
  have a: "validate hinglishResponseSchema (JObj (?base @ [(''cultural_notes'', JStr ''informal'')]))
     = Inr (JObj [(''translated_text'', JStr ''what's up friend''), (''detected_language'', JStr ''Hinglish''),
                  (''confidence'', JNum (9 / 10)), (''alternative_translations'', JArr []),
                  (''cultural_notes'', JStr ''informal'')])"
    using missing_optional_fields
            [of "?base @ [(''cultural_notes'', JStr ''informal'')]" "''what's up friend''" "''Hinglish''"
                "9 / 10" "''informal''" "[]", OF _ _ _ r]
    by (simp add: getProp_def)
  have b: "validate hinglishResponseSchema
             (JObj (?base @ [(''alternative_translations'', JArr (map JStr [''hey friend'']))]))
     = Inr (JObj [(''translated_text'', JStr ''what's up friend''), (''detected_language'', JStr ''Hinglish''),
                  (''confidence'', JNum (9 / 10)),
                  (''alternative_translations'', JArr (map JStr [''hey friend'']))])"
    using missing_optional_fields
            [of "?base @ [(''alternative_translations'', JArr (map JStr [''hey friend'']))]"
                "''what's up friend''" "''Hinglish''" "9 / 10" "''informal''" "[''hey friend'']", OF _ _ _ r]
    by (simp add: getProp_def)
  have c: "validate hinglishResponseSchema (JObj ?base)
     = Inr (JObj [(''translated_text'', JStr ''what's up friend''), (''detected_language'', JStr ''Hinglish''),
                  (''confidence'', JNum (9 / 10)), (''alternative_translations'', JArr [])])"
    using missing_optional_fields
            [of ?base "''what's up friend''" "''Hinglish''" "9 / 10" "''informal''" "[]", OF _ _ _ r]
    by (simp add: getProp_def)
  from a b c show ?thesis by simp
qed

text \<open>
  C7. On the schema of a string \<open>translated_text\<close> and a number \<open>confidence\<close> in the
  range from 0 to 1, the candidate with confidence 0.92 validates to itself and the
  candidate with confidence 1.5 is rejected with a range violation that names
  \<open>confidence\<close>. On \<open>hinglishResponseSchema\<close>, whose \<open>confidence\<close> has the same range,
  the two candidates completed with a \<open>detected_language\<close> give the same two outcomes.
\<close>

theorem confidence_range:
  "validate scenarioSchema (JObj [(''translated_text'', JStr ''hi''), (''confidence'', JNum (92 / 100))])
     = Inr (JObj [(''translated_text'', JStr ''hi''), (''confidence'', JNum (92 / 100))])
   \<and> validate scenarioSchema (JObj [(''translated_text'', JStr ''hi''), (''confidence'', JNum (15 / 10))])
     = Inl (RangeViolation ''confidence'' (15 / 10) (0, 1))
   \<and> validate hinglishResponseSchema
         (JObj [(''translated_text'', JStr ''hi''), (''detected_language'', JStr ''Hinglish''),
                (''confidence'', JNum (92 / 100))])
     = Inr (JObj [(''translated_text'', JStr ''hi''), (''detected_language'', JStr ''Hinglish''),
                  (''confidence'', JNum (92 / 100)), (''alternative_translations'', JArr [])])
   \<and> validate hinglishResponseSchema
         (JObj [(''translated_text'', JStr ''hi''), (''detected_language'', JStr ''Hinglish''),
                (''confidence'', JNum (15 / 10))])
     = Inl (RangeViolation ''confidence'' (15 / 10) (0, 1))"
  by (simp add: validate_def scenarioSchema_def hinglishResponseSchema_def getProp_def)

text \<open>
  The candidates of the scenario as they stand lack the required \<open>detected_language\<close>
  of \<open>hinglishResponseSchema\<close>, which is the first failure found on that schema.
\<close>

lemma scenario_candidate_on_hinglishResponseSchema:
  "validate hinglishResponseSchema
     (JObj [(''translated_text'', JStr ''hi''), (''confidence'', JNum (92 / 100))])
     = Inl (MissingField ''detected_language'')"
  by (simp add: validate_def hinglishResponseSchema_def getProp_def)

end
